theory Spec2Isabelle
  imports Main "HOL-Library.AList"
begin

section \<open>JavaScript values used by the messenger\<close>

text \<open>
  Strings are lists of characters; a JavaScript value that may be \<open>undefined\<close> is an
  \<open>option\<close> with \<open>None\<close> for \<open>undefined\<close>. Numbers that the code uses as counters, page
  numbers and primary keys are natural numbers.
\<close>

definition truthy :: "string option \<Rightarrow> bool" where
  \<comment> \<open>truthiness of a value that is a string or \<open>undefined\<close>\<close>
  "truthy v = (case v of None \<Rightarrow> False | Some s \<Rightarrow> s \<noteq> [])"

definition or_else :: "string option \<Rightarrow> string option \<Rightarrow> string option" where
  \<comment> \<open>\<open>a || b\<close>\<close>
  "or_else a b = (if truthy a then a else b)"

definition num_or_else :: "nat option \<Rightarrow> nat option \<Rightarrow> nat option" where
  \<comment> \<open>\<open>a || b\<close> on numbers: 0 and \<open>undefined\<close> are falsy\<close>
  "num_or_else a b = (case a of None \<Rightarrow> b | Some n \<Rightarrow> if n = 0 then b else Some n)"

definition less_num :: "nat \<Rightarrow> nat option \<Rightarrow> bool" where
  \<comment> \<open>\<open>n < v\<close>: a comparison with \<open>undefined\<close> is false\<close>
  "less_num n v = (case v of None \<Rightarrow> False | Some m \<Rightarrow> n < m)"

definition at :: "'a list \<Rightarrow> nat \<Rightarrow> 'a option" where
  \<comment> \<open>\<open>xs[i]\<close>: reading past the end gives \<open>undefined\<close>, it does not raise\<close>
  "at xs i = (if i < length xs then Some (xs ! i) else None)"

fun split :: "char \<Rightarrow> string \<Rightarrow> string list" where
  \<comment> \<open>\<open>s.split(c)\<close> for a one-character separator\<close>
  "split c [] = [[]]"
| "split c (x # xs) =
     (if x = c then [] # split c xs
      else (case split c xs of [] \<Rightarrow> [[x]] | w # ws \<Rightarrow> (x # w) # ws))"

definition is_space :: "char \<Rightarrow> bool" where
  \<comment> \<open>the white space that \<open>trim\<close> removes, among the code points below 256\<close>
  "is_space c = ((of_char c :: nat) \<in> {9, 10, 11, 12, 13, 32, 160})"

definition trim :: "string \<Rightarrow> string" where
  "trim s = rev (dropWhile is_space (rev (dropWhile is_space s)))"

definition is_lower :: "char \<Rightarrow> bool" where
  "is_lower c = (97 \<le> (of_char c :: nat) \<and> (of_char c :: nat) \<le> 122)"

definition is_upper :: "char \<Rightarrow> bool" where
  "is_upper c = (65 \<le> (of_char c :: nat) \<and> (of_char c :: nat) \<le> 90)"

definition is_digit :: "char \<Rightarrow> bool" where
  "is_digit c = (48 \<le> (of_char c :: nat) \<and> (of_char c :: nat) \<le> 57)"

fun with_bit5 :: "bool \<Rightarrow> char \<Rightarrow> char" where
  \<comment> \<open>an ASCII letter and its other case differ in bit 5 only\<close>
  "with_bit5 b (Char b0 b1 b2 b3 b4 b5 b6 b7) = Char b0 b1 b2 b3 b4 b b6 b7"

definition toUpperCase :: "string \<Rightarrow> string" where
  \<comment> \<open>\<open>s.toUpperCase()\<close> on ASCII text\<close>
  "toUpperCase s = map (\<lambda>c. if is_lower c then with_bit5 False c else c) s"

definition toLowerCase :: "string \<Rightarrow> string" where
  \<comment> \<open>\<open>s.toLowerCase()\<close> on ASCII text\<close>
  "toLowerCase s = map (\<lambda>c. if is_upper c then with_bit5 True c else c) s"

fun string_of_nat :: "nat \<Rightarrow> string" where
  \<comment> \<open>a number inside a template literal\<close>
  "string_of_nat n =
     (if n < 10 then [''0123456789'' ! n]
      else string_of_nat (n div 10) @ [''0123456789'' ! (n mod 10)])"

declare string_of_nat.simps [simp del]

datatype json =
    JUndefined
  | JNull
  | JBool bool
  | JNum int
  | JStr string
  | JArr "json list"
  | JObj "(string \<times> json) list"

text \<open>
  An object is the list of its entries in the order \<open>Object.entries\<close> gives them; its keys
  are pairwise distinct. \<open>result[key] = value\<close> overwrites the value of a key that is
  there and keeps its place, and adds a new key at the end.
\<close>

definition assign :: "(string \<times> json) list \<Rightarrow> string \<times> json \<Rightarrow> (string \<times> json) list" where
  "assign result kv = AList.update (fst kv) (snd kv) result"

fun well_formed :: "json \<Rightarrow> bool" where
  "well_formed (JArr xs) = list_all well_formed xs"
| "well_formed (JObj es) = (distinct (map fst es) \<and> list_all (\<lambda>e. well_formed (snd e)) es)"
| "well_formed v = True"

fun keys_of :: "json \<Rightarrow> string list" where
  \<comment> \<open>every key of every object inside a value\<close>
  "keys_of (JArr xs) = concat (map keys_of xs)"
| "keys_of (JObj es) = concat (map (\<lambda>e. fst e # keys_of (snd e)) es)"
| "keys_of v = []"

definition js_truthy :: "json \<Rightarrow> bool" where
  "js_truthy v =
     (case v of JUndefined \<Rightarrow> False | JNull \<Rightarrow> False | JBool b \<Rightarrow> b | JNum n \<Rightarrow> n \<noteq> 0
      | JStr s \<Rightarrow> s \<noteq> [] | JArr xs \<Rightarrow> True | JObj es \<Rightarrow> True)"

definition typeof_object :: "json \<Rightarrow> bool" where
  \<comment> \<open>\<open>typeof v === 'object'\<close>\<close>
  "typeof_object v = (case v of JNull \<Rightarrow> True | JArr xs \<Rightarrow> True | JObj es \<Rightarrow> True | _ \<Rightarrow> False)"

definition isArray :: "json \<Rightarrow> bool" where
  "isArray v = (case v of JArr xs \<Rightarrow> True | _ \<Rightarrow> False)"

section \<open>data/utils.js\<close>

fun modifyObjectKeys :: "json \<Rightarrow> (string \<Rightarrow> string) \<Rightarrow> json" where
  "modifyObjectKeys (JArr xs) modify = JArr (map (\<lambda>v. modifyObjectKeys v modify) xs)"
| "modifyObjectKeys (JObj es) modify =
     JObj (foldl assign [] (map (\<lambda>e. (modify (fst e), modifyObjectKeys (snd e) modify)) es))"
| "modifyObjectKeys object modify = object"

text \<open>
  The two key functions are lodash's \<open>camelCase\<close> and \<open>snakeCase\<close>, which the repository
  imports and does not contain.
\<close>

fun scanWords :: "string \<Rightarrow> string \<Rightarrow> string list" where
  \<comment> \<open>Modelled from the spec: the scan behind \<open>words\<close> below, which lodash has and the
      repository has not; its arguments are the word under construction and the text
      still to read.\<close>
  "scanWords w [] = (if w = [] then [] else [w])"
| "scanWords w (c # cs) =
     (if is_lower c then
        (if w \<noteq> [] \<and> is_lower (last w) then scanWords (w @ [c]) cs
         else if w \<noteq> [] \<and> is_upper (last w) then
           (if 2 \<le> length w then butlast w # scanWords [last w, c] cs
            else scanWords (w @ [c]) cs)
         else (if w = [] then [] else [w]) @ scanWords [c] cs)
      else if is_upper c then
        (if w \<noteq> [] \<and> is_upper (last w) then scanWords (w @ [c]) cs
         else (if w = [] then [] else [w]) @ scanWords [c] cs)
      else if is_digit c then
        (if w \<noteq> [] \<and> is_digit (last w) then scanWords (w @ [c]) cs
         else (if w = [] then [] else [w]) @ scanWords [c] cs)
      else (if w = [] then [] else [w]) @ scanWords [] cs)"

definition words :: "string \<Rightarrow> string list" where
  \<comment> \<open>Modelled from the spec: the word boundaries of the "word-boundary casing conversion",
      which is lodash's \<open>words\<close> after its removal of apostrophes. A word is a run of
      lower-case letters with at most one capital before it, a run of capitals (without the
      last one when a lower-case letter follows), or a run of digits; every other character
      separates words. This is what lodash computes on ASCII text without an ordinal such
      as \<open>1st\<close>.\<close>
  "words s = scanWords [] (filter (\<lambda>c. c \<noteq> CHR 0x27) s)"

definition capitalize :: "string \<Rightarrow> string" where
  \<comment> \<open>Modelled from the spec: lodash's \<open>capitalize\<close>, the first letter of a word in
      upper case and the rest in lower case.\<close>
  "capitalize w = (case toLowerCase w of [] \<Rightarrow> [] | c # cs \<Rightarrow> toUpperCase [c] @ cs)"

definition camelCase :: "string \<Rightarrow> string" where
  \<comment> \<open>Modelled from the spec: lodash's \<open>camelCase\<close>, the casing of keys inside the
      client: the first word in lower case, every later word capitalised.\<close>
  "camelCase s =
     (case words s of [] \<Rightarrow> [] | w # ws \<Rightarrow> toLowerCase w @ concat (map capitalize ws))"

definition snakeCase :: "string \<Rightarrow> string" where
  \<comment> \<open>Modelled from the spec: lodash's \<open>snakeCase\<close>, the casing of keys on the wire:
      the words in lower case, joined by underscores.\<close>
  "snakeCase s =
     (case words s of [] \<Rightarrow> []
      | w # ws \<Rightarrow> toLowerCase w @ concat (map (\<lambda>v. CHR ''_'' # toLowerCase v) ws))"

definition camelCaseObject :: "json \<Rightarrow> json" where
  "camelCaseObject object = modifyObjectKeys object camelCase"

definition snakeCaseObject :: "json \<Rightarrow> json" where
  "snakeCaseObject object = modifyObjectKeys object snakeCase"

section \<open>data/service.js\<close>

datatype http_method = GET | POST | PATCH

record request =
  req_method :: http_method
  url :: string
  body :: json

record http_response =
  data :: json

record http_error =
  err_message :: string
  response :: "http_response option"

text \<open>
  What a service function throws: the error the HTTP client rejected with, or the object
  that \<open>Object.create(error)\<close> makes from it, with its own \<open>processedData\<close>, or the
  \<open>TypeError\<close> of a property read on \<open>null\<close> or \<open>undefined\<close>.
\<close>

datatype thrown =
    Original http_error
  | Processed http_error json
  | TypeError

type_synonym http_client = "request \<Rightarrow> http_error + http_response"

definition processAndThrowError :: "http_error \<Rightarrow> (json \<Rightarrow> json) \<Rightarrow> thrown" where
  "processAndThrowError error errorDataProcessor =
     (case response error of
        None \<Rightarrow> Original error
      | Some r \<Rightarrow>
          if js_truthy (data r) \<and> typeof_object (data r)
          then Processed error (errorDataProcessor (data r))
          else Original error)"

definition getBaseURL :: "string \<Rightarrow> string" where
  \<comment> \<open>the argument is the configuration's \<open>LMS_BASE_URL\<close>\<close>
  "getBaseURL lms = lms @ ''/messenger/api/v0''"

definition createMessageService :: "string \<Rightarrow> http_client \<Rightarrow> json \<Rightarrow> thrown + json" where
  "createMessageService lms http payload =
     (let processedParams = snakeCaseObject payload in
      case http \<lparr>req_method = POST, url = getBaseURL lms @ ''/message/'', body = processedParams\<rparr> of
        Inl error \<Rightarrow> Inl (processAndThrowError error camelCaseObject)
      | Inr r \<Rightarrow> Inr (camelCaseObject (data r)))"

definition createGroupMessagesService :: "string \<Rightarrow> http_client \<Rightarrow> json \<Rightarrow> thrown + json" where
  "createGroupMessagesService lms http payload =
     (let processedParams = snakeCaseObject payload in
      case http \<lparr>req_method = POST, url = getBaseURL lms @ ''/bulk_message/'',
                 body = processedParams\<rparr> of
        Inl error \<Rightarrow> Inl (processAndThrowError error camelCaseObject)
      | Inr r \<Rightarrow> Inr (camelCaseObject (data r)))"

definition updateUnreadCountService :: "string \<Rightarrow> http_client \<Rightarrow> nat \<Rightarrow> thrown + json" where
  "updateUnreadCountService lms http inboxId =
     (case http \<lparr>req_method = PATCH,
                 url = getBaseURL lms @ ''/inbox/'' @ string_of_nat inboxId @ ''/'',
                 body = snakeCaseObject (JObj [(''unread_count'', JNum 0)])\<rparr> of
        Inl error \<Rightarrow> Inl (processAndThrowError error camelCaseObject)
      | Inr r \<Rightarrow> Inr (camelCaseObject (data r)))"

definition fetchInboxListService :: "string \<Rightarrow> http_client \<Rightarrow> nat \<Rightarrow> string \<Rightarrow> thrown + json" where
  "fetchInboxListService lms http page search =
     (case http \<lparr>req_method = GET,
                 url = getBaseURL lms @ ''/inbox/?page='' @ string_of_nat page
                         @ ''&search='' @ search,
                 body = JUndefined\<rparr> of
        Inl error \<Rightarrow> Inl (processAndThrowError error camelCaseObject)
      | Inr r \<Rightarrow> Inr (camelCaseObject (data r)))"

definition fetchSelectedInboxMessagesService ::
  "string \<Rightarrow> http_client \<Rightarrow> nat \<Rightarrow> string \<Rightarrow> thrown + json" where
  "fetchSelectedInboxMessagesService lms http page withUser' =
     (case http \<lparr>req_method = GET,
                 url = getBaseURL lms @ ''/conversation/?page='' @ string_of_nat page
                         @ ''&with_user='' @ withUser',
                 body = JUndefined\<rparr> of
        Inl error \<Rightarrow> Inl (processAndThrowError error camelCaseObject)
      | Inr r \<Rightarrow> Inr (camelCaseObject (data r)))"

definition fetchUsersService :: "string \<Rightarrow> http_client \<Rightarrow> string \<Rightarrow> thrown + json" where
  "fetchUsersService lms http query =
     (case http \<lparr>req_method = GET, url = getBaseURL lms @ ''/user/?search='' @ query,
                 body = JUndefined\<rparr> of
        Inl error \<Rightarrow> Inl (processAndThrowError error camelCaseObject)
      | Inr r \<Rightarrow> Inr (camelCaseObject (data r)))"

definition get_prop :: "json \<Rightarrow> string \<Rightarrow> json" where
  \<comment> \<open>\<open>v.key\<close> on a value that is neither \<open>null\<close> nor \<open>undefined\<close>, for a key that is
      not a built-in property of arrays and strings\<close>
  "get_prop v key =
     (case v of JObj es \<Rightarrow> (case map_of es key of None \<Rightarrow> JUndefined | Some x \<Rightarrow> x)
      | _ \<Rightarrow> JUndefined)"

definition spread :: "json \<Rightarrow> (string \<times> json) list" where
  \<comment> \<open>the entries that \<open>{...v}\<close> copies\<close>
  "spread v =
     (case v of
        JObj es \<Rightarrow> es
      | JArr xs \<Rightarrow> zip (map string_of_nat [0..<length xs]) xs
      | JStr s \<Rightarrow> zip (map string_of_nat [0..<length s]) (map (\<lambda>c. JStr [c]) s)
      | _ \<Rightarrow> [])"

definition or_json :: "json \<Rightarrow> json \<Rightarrow> json" where
  "or_json a b = (if js_truthy a then a else b)"

definition processAccountData :: "json \<Rightarrow> thrown + json" where
  "processAccountData d =
     (let processedData = camelCaseObject d in
      if processedData = JUndefined \<or> processedData = JNull then Inl TypeError
      else Inr (JObj (foldl assign (spread processedData)
        [(''socialLinks'',
            if isArray (get_prop processedData ''socialLinks'')
            then get_prop processedData ''socialLinks'' else JArr []),
         (''languageProficiencies'',
            if isArray (get_prop processedData ''languageProficiencies'')
            then get_prop processedData ''languageProficiencies'' else JArr []),
         (''name'', or_json (get_prop processedData ''name'') JNull),
         (''bio'', or_json (get_prop processedData ''bio'') JNull),
         (''country'', or_json (get_prop processedData ''country'') JNull),
         (''levelOfEducation'', or_json (get_prop processedData ''levelOfEducation'') JNull),
         (''profileImage'', or_json (get_prop processedData ''profileImage'') (JObj [])),
         (''yearOfBirth'', or_json (get_prop processedData ''yearOfBirth'') JNull)])))"

definition getAccountService :: "string \<Rightarrow> http_client \<Rightarrow> string \<Rightarrow> thrown + json" where
  "getAccountService lms http username' =
     (case http \<lparr>req_method = GET, url = lms @ ''/api/user/v1/accounts/'' @ username',
                 body = JUndefined\<rparr> of
        Inl error \<Rightarrow> Inl (Original error)
      | Inr r \<Rightarrow> processAccountData (data r))"

section \<open>store/slices/inboxSlice.js\<close>

datatype toast = ToastError string | ToastSuccess string

record inbox_entry =
  entry_id :: nat
  withUser :: "string option"
  with_user :: "string option"
  withUserImg :: "string option"
  last_message :: "string option"
  lastMessageDate :: "string option"
  unreadCount :: nat

record inbox_state =
  inboxList :: "inbox_entry list"
  selectedUser :: "string option"
  inbox_loading :: bool
  inbox_hasMore :: bool
  inbox_pageNumber :: nat
  searchQuery :: string
  inbox_error :: "string option"

text \<open>The body of a list response, as the reducers read it.\<close>

record inbox_page =
  results :: "inbox_entry list"
  numPages :: "nat option"
  num_pages :: "nat option"

definition inbox_initialState :: inbox_state where
  "inbox_initialState =
     \<lparr>inboxList = [], selectedUser = Some [], inbox_loading = False, inbox_hasMore = False,
      inbox_pageNumber = 1, searchQuery = [], inbox_error = None\<rparr>"

definition setSelectedUser :: "inbox_state \<Rightarrow> string option \<Rightarrow> inbox_state" where
  "setSelectedUser state payload = state\<lparr>selectedUser := payload\<rparr>"

definition setSearchQuery :: "inbox_state \<Rightarrow> string \<Rightarrow> inbox_state" where
  "setSearchQuery state payload = state\<lparr>searchQuery := payload, inbox_pageNumber := 1\<rparr>"

definition incrementPageNumber :: "inbox_state \<Rightarrow> inbox_state" where
  "incrementPageNumber state = state\<lparr>inbox_pageNumber := inbox_pageNumber state + 1\<rparr>"

definition resetPageNumber :: "inbox_state \<Rightarrow> inbox_state" where
  "resetPageNumber state = state\<lparr>inbox_pageNumber := 1\<rparr>"

definition updateLastMessage :: "inbox_state \<Rightarrow> string option \<Rightarrow> string \<Rightarrow> inbox_state" where
  "updateLastMessage state username' message' =
     (let updatedList =
        map (\<lambda>item.
               if with_user item = username' \<or> withUser item = username'
               then item\<lparr>last_message :=
                      Some (if length message' > 30 then take 30 message' @ ''...''
                            else message')\<rparr>
               else item)
            (inboxList state)
      in state\<lparr>inboxList := updatedList\<rparr>)"

definition updateInboxList :: "inbox_state \<Rightarrow> inbox_entry list \<Rightarrow> inbox_state" where
  "updateInboxList state updatedInbox =
     (let updatedInboxIds = map entry_id updatedInbox;
          filteredList = filter (\<lambda>inbox. \<not> List.member updatedInboxIds (entry_id inbox))
                           (inboxList state)
      in state\<lparr>inboxList := updatedInbox @ filteredList\<rparr>)"

definition fetchInboxList_pending :: "inbox_state \<Rightarrow> inbox_state" where
  "fetchInboxList_pending state = state\<lparr>inbox_loading := True, inbox_error := None\<rparr>"

definition fetchInboxList_fulfilled :: "inbox_state \<Rightarrow> inbox_page \<Rightarrow> nat \<Rightarrow> inbox_state" where
  "fetchInboxList_fulfilled state data' pageNumber =
     (if pageNumber = 1 then
        state\<lparr>inboxList := results data',
              selectedUser :=
                (case results data' of
                   [] \<Rightarrow> selectedUser state
                 | first # _ \<Rightarrow> or_else (withUser first) (with_user first)),
              inbox_hasMore := less_num pageNumber (num_or_else (numPages data') (num_pages data')),
              inbox_loading := False\<rparr>
      else
        state\<lparr>inboxList := inboxList state @ results data',
              inbox_hasMore := less_num pageNumber (num_or_else (numPages data') (num_pages data')),
              inbox_loading := False\<rparr>)"

definition fetchInboxList_rejected ::
  "inbox_state \<Rightarrow> string option \<Rightarrow> inbox_state \<times> toast list" where
  "fetchInboxList_rejected state payload =
     (state\<lparr>inbox_loading := False, inbox_error := payload\<rparr>,
      [ToastError ''Failed to load conversations''])"

definition updateUnreadCount_fulfilled :: "inbox_state \<Rightarrow> inbox_entry \<Rightarrow> inbox_state" where
  "updateUnreadCount_fulfilled state updatedInbox =
     (let updatedList =
        map (\<lambda>inbox. if entry_id inbox = entry_id updatedInbox then updatedInbox else inbox)
            (inboxList state)
      in state\<lparr>inboxList := updatedList\<rparr>)"

definition updateUnreadCount_rejected :: "inbox_state \<Rightarrow> inbox_state \<times> toast list" where
  "updateUnreadCount_rejected state = (state, [ToastError ''Failed to mark messages as read''])"

definition createGroupMessages_fulfilled ::
  "inbox_state \<Rightarrow> inbox_entry list \<Rightarrow> inbox_state \<times> toast list" where
  "createGroupMessages_fulfilled state updatedInbox =
     (let updatedInboxIds = map entry_id updatedInbox;
          filteredList = filter (\<lambda>inbox. \<not> List.member updatedInboxIds (entry_id inbox))
                           (inboxList state)
      in (state\<lparr>inboxList := updatedInbox @ filteredList\<rparr>,
          [ToastSuccess ''Messages sent successfully'']))"

definition createGroupMessages_rejected :: "inbox_state \<Rightarrow> inbox_state \<times> toast list" where
  "createGroupMessages_rejected state = (state, [ToastError ''Failed to send messages''])"

section \<open>store/slices/messagesSlice.js\<close>

record msg =
  msg_id :: "nat option"
  sender :: string
  senderImg :: "string option"
  sender_img :: "string option"
  created :: string
  message :: string

record messages_state =
  messagesList :: "msg list"
  messages_loading :: bool
  messages_hasMore :: bool
  messages_pageNumber :: nat
  messages_error :: "string option"
  isReplying :: bool
  currentMessage :: string

record messages_page =
  messages_results :: "msg list"
  messages_numPages :: "nat option"
  messages_num_pages :: "nat option"

definition messages_initialState :: messages_state where
  "messages_initialState =
     \<lparr>messagesList = [], messages_loading = False, messages_hasMore = False,
      messages_pageNumber = 1, messages_error = None, isReplying = False,
      currentMessage = []\<rparr>"

definition messages_incrementPageNumber :: "messages_state \<Rightarrow> messages_state" where
  "messages_incrementPageNumber state =
     state\<lparr>messages_pageNumber := messages_pageNumber state + 1\<rparr>"

definition resetMessages :: "messages_state \<Rightarrow> messages_state" where
  "resetMessages state =
     state\<lparr>messagesList := [], messages_pageNumber := 1, messages_hasMore := False,
           isReplying := False, currentMessage := []\<rparr>"

definition setIsReplying :: "messages_state \<Rightarrow> bool \<Rightarrow> messages_state" where
  "setIsReplying state payload = state\<lparr>isReplying := payload\<rparr>"

definition setCurrentMessage :: "messages_state \<Rightarrow> string \<Rightarrow> messages_state" where
  "setCurrentMessage state payload = state\<lparr>currentMessage := payload\<rparr>"

definition addMessageToList :: "messages_state \<Rightarrow> msg \<Rightarrow> messages_state" where
  "addMessageToList state payload = state\<lparr>messagesList := payload # messagesList state\<rparr>"

definition clearCurrentMessage :: "messages_state \<Rightarrow> messages_state" where
  "clearCurrentMessage state = state\<lparr>currentMessage := [], isReplying := False\<rparr>"

definition fetchMessages_pending :: "messages_state \<Rightarrow> messages_state" where
  "fetchMessages_pending state = state\<lparr>messages_loading := True, messages_error := None\<rparr>"

definition fetchMessages_fulfilled ::
  "messages_state \<Rightarrow> messages_page \<Rightarrow> nat \<Rightarrow> messages_state" where
  "fetchMessages_fulfilled state data' pageNumber =
     (if pageNumber = 1 then
        state\<lparr>messagesList := messages_results data',
              messages_hasMore :=
                less_num pageNumber
                  (num_or_else (messages_numPages data') (messages_num_pages data')),
              messages_loading := False\<rparr>
      else
        state\<lparr>messagesList := messagesList state @ messages_results data',
              messages_hasMore :=
                less_num pageNumber
                  (num_or_else (messages_numPages data') (messages_num_pages data')),
              messages_loading := False\<rparr>)"

definition fetchMessages_rejected ::
  "messages_state \<Rightarrow> string option \<Rightarrow> messages_state \<times> toast list" where
  "fetchMessages_rejected state payload =
     (state\<lparr>messages_loading := False, messages_error := payload\<rparr>,
      [ToastError ''Failed to load conversation''])"

definition createMessage_fulfilled :: "messages_state \<Rightarrow> msg \<Rightarrow> messages_state \<times> toast list" where
  "createMessage_fulfilled state payload =
     (state\<lparr>messagesList := payload # messagesList state, currentMessage := [],
            isReplying := False\<rparr>,
      [ToastSuccess ''Message sent successfully''])"

definition createMessage_rejected :: "messages_state \<Rightarrow> messages_state \<times> toast list" where
  "createMessage_rejected state = (state, [ToastError ''Failed to send message''])"

section \<open>store/slices/userSlice.js\<close>

record current_user =
  username :: string
  name :: string
  profileName :: string
  hasProfileImage :: bool
  profileImage :: string

record user_result =
  result_id :: string
  result_username :: string

record user_state =
  currentUser :: current_user
  searchResults :: "user_result list"
  user_loading :: bool
  user_error :: "string option"

text \<open>The account data and the user search response, as the reducers read them.\<close>

record profile_image =
  hasImage :: "bool option"
  imageUrlFull :: "string option"

record account =
  account_profileImage :: "profile_image option"

record found_user =
  found_username :: string

definition user_initialState :: user_state where
  "user_initialState =
     \<lparr>currentUser = \<lparr>username = [], name = [], profileName = [], hasProfileImage = False,
                     profileImage = []\<rparr>,
      searchResults = [], user_loading = False, user_error = None\<rparr>"

definition clearSearchResults :: "user_state \<Rightarrow> user_state" where
  "clearSearchResults state = state\<lparr>searchResults := []\<rparr>"

definition initials :: "string \<Rightarrow> string" where
  \<comment> \<open>the template literal of \<open>profileName\<close>; an \<open>undefined\<close> first character prints as
      the text \<open>undefined\<close>\<close>
  "initials username' =
     (case at username' 0 of None \<Rightarrow> ''undefined'' | Some c \<Rightarrow> [c])
     @ (if truthy (at (split CHR '' '' username') 1)
        then (case at (split CHR '' '' username') 1 of
                Some (c # _) \<Rightarrow> [c]
              | _ \<Rightarrow> ''undefined'')
        else (case at username' 1 of None \<Rightarrow> [] | Some c \<Rightarrow> [c]))"

definition fetchUserProfile_fulfilled ::
  "user_state \<Rightarrow> account option \<Rightarrow> string \<Rightarrow> user_state" where
  "fetchUserProfile_fulfilled state profileData username' =
     state\<lparr>currentUser :=
       \<lparr>username = username',
        name = username',
        profileName = initials username',
        hasProfileImage =
          (case profileData of None \<Rightarrow> False
           | Some p \<Rightarrow> (case account_profileImage p of None \<Rightarrow> False
               | Some i \<Rightarrow> (case hasImage i of None \<Rightarrow> False | Some b \<Rightarrow> b))),
        profileImage =
          (case profileData of None \<Rightarrow> []
           | Some p \<Rightarrow> (case account_profileImage p of None \<Rightarrow> []
               | Some i \<Rightarrow> (case imageUrlFull i of None \<Rightarrow> [] | Some u \<Rightarrow> u)))\<rparr>\<rparr>"

definition fetchUserProfile_rejected :: "user_state \<Rightarrow> user_state \<times> toast list" where
  "fetchUserProfile_rejected state = (state, [ToastError ''Failed to fetch profile image''])"

definition searchUsers_pending :: "user_state \<Rightarrow> user_state" where
  "searchUsers_pending state = state\<lparr>user_loading := True\<rparr>"

definition searchUsers_fulfilled :: "user_state \<Rightarrow> found_user list \<Rightarrow> user_state" where
  "searchUsers_fulfilled state payload_results =
     (let mappedResults =
        map (\<lambda>user'. \<lparr>result_id = found_username user',
                        result_username = found_username user'\<rparr>) payload_results
      in state\<lparr>searchResults := mappedResults, user_loading := False\<rparr>)"

definition searchUsers_rejected :: "user_state \<Rightarrow> user_state \<times> toast list" where
  "searchUsers_rejected state =
     (state\<lparr>user_loading := False\<rparr>, [ToastError ''Failed to search users''])"

section \<open>The store and its thunks\<close>

text \<open>
  The store of \<open>configureStore\<close> holds the three slices. Beside it the model keeps what
  the code does outside the store: the calls to the service functions, each of which
  issues one HTTP request, and the toasts shown.

  A thunk made by \<open>createAsyncThunk\<close> dispatches its pending action, awaits the service
  call, and dispatches its fulfilled or its rejected action; every payload creator here
  catches the failure and returns \<open>rejectWithValue(error.message)\<close>. The outcome of the
  service call is an argument of the model: \<open>Inl\<close> the message of the error, \<open>Inr\<close> the
  value the service returned. The promise that \<open>dispatch\<close> returns for a thunk is resolved
  with the final action in both cases, so a \<open>then\<close> callback on it runs after the
  fulfilled action and after the rejected one.
\<close>

datatype api_call =
    CreateMessage "string option" string
  | CreateGroupMessages "string list" string
  | UpdateUnreadCount nat
  | FetchInboxList nat string
  | FetchMessages nat "string option"
  | FetchUsers string
  | GetAccount string

record app =
  inbox :: inbox_state
  messages :: messages_state
  user :: user_state
  calls :: "api_call list"
  toasts :: "toast list"

definition fetchInboxList_start :: "nat \<Rightarrow> string \<Rightarrow> app \<Rightarrow> app" where
  \<comment> \<open>the pending action and the request, up to the suspension at the service call\<close>
  "fetchInboxList_start pageNumber searchQuery' a =
     a\<lparr>inbox := fetchInboxList_pending (inbox a),
       calls := calls a @ [FetchInboxList pageNumber searchQuery']\<rparr>"

definition fetchInboxList_finish :: "string option + inbox_page \<Rightarrow> nat \<Rightarrow> app \<Rightarrow> app" where
  "fetchInboxList_finish outcome pageNumber a =
     (case outcome of
        Inr data' \<Rightarrow> a\<lparr>inbox := fetchInboxList_fulfilled (inbox a) data' pageNumber\<rparr>
      | Inl msg' \<Rightarrow>
          (let (s, ts) = fetchInboxList_rejected (inbox a) msg'
           in a\<lparr>inbox := s, toasts := toasts a @ ts\<rparr>))"

definition fetchInboxList :: "string option + inbox_page \<Rightarrow> nat \<Rightarrow> string \<Rightarrow> app \<Rightarrow> app" where
  "fetchInboxList outcome pageNumber searchQuery' a =
     fetchInboxList_finish outcome pageNumber (fetchInboxList_start pageNumber searchQuery' a)"

definition createGroupMessages ::
  "string option + inbox_entry list \<Rightarrow> string list \<Rightarrow> string \<Rightarrow> app \<Rightarrow> app" where
  "createGroupMessages outcome receivers message' a =
     (let a1 = a\<lparr>calls := calls a @ [CreateGroupMessages receivers message']\<rparr>;
          (s, ts) = (case outcome of
                       Inr updatedInbox \<Rightarrow> createGroupMessages_fulfilled (inbox a1) updatedInbox
                     | Inl msg' \<Rightarrow> createGroupMessages_rejected (inbox a1))
      in a1\<lparr>inbox := s, toasts := toasts a1 @ ts\<rparr>)"

definition createMessage ::
  "string option + msg \<Rightarrow> string option \<Rightarrow> string \<Rightarrow> app \<Rightarrow> app" where
  "createMessage outcome receiver message' a =
     (let a1 = a\<lparr>calls := calls a @ [CreateMessage receiver message']\<rparr>;
          (s, ts) = (case outcome of
                       Inr createdMessage \<Rightarrow> createMessage_fulfilled (messages a1) createdMessage
                     | Inl msg' \<Rightarrow> createMessage_rejected (messages a1))
      in a1\<lparr>messages := s, toasts := toasts a1 @ ts\<rparr>)"

definition searchUsers :: "string option + found_user list \<Rightarrow> string \<Rightarrow> app \<Rightarrow> app" where
  "searchUsers outcome query a =
     (let a1 = a\<lparr>user := searchUsers_pending (user a), calls := calls a @ [FetchUsers query]\<rparr>
      in case outcome of
           Inr users_results \<Rightarrow> a1\<lparr>user := searchUsers_fulfilled (user a1) users_results\<rparr>
         | Inl msg' \<Rightarrow>
             (let (s, ts) = searchUsers_rejected (user a1)
              in a1\<lparr>user := s, toasts := toasts a1 @ ts\<rparr>))"

definition fetchUserProfile ::
  "string option \<Rightarrow> string option + account option \<Rightarrow> app \<Rightarrow> app" where
  \<comment> \<open>the first argument is \<open>getAuthenticatedUser()?.username\<close>\<close>
  "fetchUserProfile authenticated outcome a =
     (case authenticated of
        None \<Rightarrow> (let (s, ts) = fetchUserProfile_rejected (user a)
                 in a\<lparr>user := s, toasts := toasts a @ ts\<rparr>)
      | Some username' \<Rightarrow>
          if username' = [] then
            (let (s, ts) = fetchUserProfile_rejected (user a)
             in a\<lparr>user := s, toasts := toasts a @ ts\<rparr>)
          else
            (let a1 = a\<lparr>calls := calls a @ [GetAccount username']\<rparr>
             in case outcome of
                  Inr profileData \<Rightarrow>
                    a1\<lparr>user := fetchUserProfile_fulfilled (user a1) profileData username'\<rparr>
                | Inl msg' \<Rightarrow>
                    (let (s, ts) = fetchUserProfile_rejected (user a1)
                     in a1\<lparr>user := s, toasts := toasts a1 @ ts\<rparr>)))"

section \<open>components/Conversation.jsx\<close>

definition handleSendMessage :: "string option + msg \<Rightarrow> app \<Rightarrow> app" where
  \<comment> \<open>\<open>selectedUser\<close> and \<open>currentMessage\<close> are the values of the render in which the
      handler was made, and the \<open>then\<close> callback uses the same ones\<close>
  "handleSendMessage outcome a =
     (let selectedUser' = selectedUser (inbox a);
          currentMessage' = currentMessage (messages a)
      in if trim currentMessage' = [] then a
         else
           (let a1 = createMessage outcome selectedUser' currentMessage' a
            in a1\<lparr>inbox := updateLastMessage (inbox a1) selectedUser' currentMessage'\<rparr>))"

section \<open>components/newMessageModal.jsx\<close>

record modal =
  groupMessage :: string
  selectedUsers :: "user_result list"
  shown :: bool

definition handleSearch :: "string option + found_user list \<Rightarrow> string \<Rightarrow> app \<Rightarrow> app" where
  "handleSearch outcome query a = (if query \<noteq> [] then searchUsers outcome query a else a)"

definition handleSubmit ::
  "string option + inbox_entry list \<Rightarrow> modal \<times> app \<Rightarrow> modal \<times> app" where
  "handleSubmit outcome ma =
     (let m = fst ma; a = snd ma;
          selectedUser' = selectedUser (inbox a);
          currentUser' = currentUser (user a)
      in if trim (groupMessage m) = [] \<or> length (selectedUsers m) = 0 then (m, a)
         else
           (let receivers = map result_id (selectedUsers m);
                a1 = createGroupMessages outcome receivers (groupMessage m) a;
                isConversationOpened =
                  list_ex (\<lambda>user'. Some (result_username user') = selectedUser')
                    (selectedUsers m);
                a2 = (if isConversationOpened
                      then a1\<lparr>messages :=
                             addMessageToList (messages a1)
                               \<lparr>msg_id = None,
                                sender = username currentUser',
                                senderImg = None,
                                sender_img = Some (profileImage currentUser'),
                                created = ''now'',
                                message = groupMessage m\<rparr>\<rparr>
                      else a1);
                a3 = a2\<lparr>user := clearSearchResults (user a2)\<rparr>
            in (m\<lparr>groupMessage := [], selectedUsers := [], shown := False\<rparr>, a3)))"

section \<open>components/Inbox.jsx\<close>

text \<open>
  The component keeps, beside the store, the timer of the search effect: the time left
  until it fires, in milliseconds, and the query its callback has captured. An effect
  runs after a render in which one of its dependencies has changed, after the cleanup
  that its previous run returned.
\<close>

record inbox_component =
  store :: app
  delayDebounceFetch :: "(nat \<times> string) option"

definition searchEffect :: "inbox_component \<Rightarrow> inbox_component" where
  "searchEffect c =
     (let searchQuery' = searchQuery (inbox (store c));
          pageNumber = inbox_pageNumber (inbox (store c))
      in if searchQuery' \<noteq> [] then c\<lparr>delayDebounceFetch := Some (500, searchQuery')\<rparr>
         else if searchQuery' = [] \<and> pageNumber = 1
           then c\<lparr>store := fetchInboxList_start 1 [] (store c)\<rparr>
         else c)"

definition searchCleanup :: "inbox_component \<Rightarrow> inbox_component" where
  \<comment> \<open>\<open>clearTimeout(delayDebounceFetch)\<close>, or the empty cleanup when no timer was set\<close>
  "searchCleanup c = c\<lparr>delayDebounceFetch := None\<rparr>"

definition paginationEffect :: "inbox_component \<Rightarrow> inbox_component" where
  "paginationEffect c =
     (let searchQuery' = searchQuery (inbox (store c));
          pageNumber = inbox_pageNumber (inbox (store c))
      in if pageNumber > 1 then c\<lparr>store := fetchInboxList_start pageNumber searchQuery' (store c)\<rparr>
         else c)"

definition rerender :: "inbox_state \<Rightarrow> inbox_component \<Rightarrow> inbox_component" where
  \<comment> \<open>the effects after a render, given the inbox state of the render before\<close>
  "rerender before c =
     (let c1 = (if searchQuery (inbox (store c)) \<noteq> searchQuery before
                then searchEffect (searchCleanup c) else c)
      in if inbox_pageNumber (inbox (store c1)) \<noteq> inbox_pageNumber before
         then paginationEffect c1 else c1)"

definition handleSearchChange :: "string \<Rightarrow> inbox_component \<Rightarrow> inbox_component" where
  "handleSearchChange v c =
     rerender (inbox (store c))
       (c\<lparr>store := (store c)\<lparr>inbox := setSearchQuery (inbox (store c)) v\<rparr>\<rparr>)"

definition handleClearSearch :: "inbox_component \<Rightarrow> inbox_component" where
  "handleClearSearch c = handleSearchChange [] c"

definition elapse :: "nat \<Rightarrow> inbox_component \<Rightarrow> inbox_component" where
  \<comment> \<open>the passing of \<open>d\<close> milliseconds: a timer whose delay has passed runs its callback\<close>
  "elapse d c =
     (case delayDebounceFetch c of
        None \<Rightarrow> c
      | Some (left, query) \<Rightarrow>
          if d < left then c\<lparr>delayDebounceFetch := Some (left - d, query)\<rparr>
          else
            rerender (inbox (store c))
              (c\<lparr>store :=
                   fetchInboxList_start 1 query
                     ((store c)\<lparr>inbox := resetPageNumber (inbox (store c))\<rparr>),
                 delayDebounceFetch := None\<rparr>))"

definition plus :: "string option \<Rightarrow> string option \<Rightarrow> string option" where
  \<comment> \<open>\<open>a + b\<close> where each side is a string or \<open>undefined\<close>: \<open>undefined\<close> next to a
      string prints as text; \<open>undefined + undefined\<close> is the number \<open>NaN\<close>, and the
      \<open>toUpperCase\<close> call on it raises, which is the result \<open>None\<close>\<close>
  "plus a b =
     (case (a, b) of
        (None, None) \<Rightarrow> None
      | (Some x, None) \<Rightarrow> Some (x @ ''undefined'')
      | (None, Some y) \<Rightarrow> Some (''undefined'' @ y)
      | (Some x, Some y) \<Rightarrow> Some (x @ y))"

definition char_at :: "string \<Rightarrow> nat \<Rightarrow> string option" where
  \<comment> \<open>\<open>s[i]\<close> as a string of one character\<close>
  "char_at s i = map_option (\<lambda>c. [c]) (at s i)"

definition getInitials :: "string \<Rightarrow> string option" where
  \<comment> \<open>the helper of the inbox rows ("simple and safe")\<close>
  "getInitials name' =
     (let parts = split CHR '' '' name'
      in if length parts \<ge> 2
         then map_option toUpperCase (plus (char_at (parts ! 0) 0) (char_at (parts ! 1) 0))
         else map_option toUpperCase
                (plus (char_at name' 0) (or_else (char_at name' 1) (char_at name' 0))))"

section \<open>Initial state and sample data\<close>

definition initial_app :: app where
  \<comment> \<open>the store as \<open>configureStore\<close> makes it, before any call or toast\<close>
  "initial_app =
     \<lparr>inbox = inbox_initialState, messages = messages_initialState, user = user_initialState,
      calls = [], toasts = []\<rparr>"

definition entry :: "nat \<Rightarrow> string \<Rightarrow> nat \<Rightarrow> inbox_entry" where
  \<comment> \<open>an inbox entry with its id, peer and unread count, as in
      \<open>{id: 1, withUser: "bob", unreadCount: 2}\<close>\<close>
  "entry i peer n =
     \<lparr>entry_id = i, withUser = Some peer, with_user = None, withUserImg = None,
      last_message = None, lastMessageDate = None, unreadCount = n\<rparr>"

section \<open>Evaluation rules\<close>

lemmas js_defs = truthy_def or_else_def num_or_else_def less_num_def at_def

lemmas char_defs =
  is_lower_def is_upper_def is_digit_def is_space_def toUpperCase_def toLowerCase_def

lemmas case_defs = words_def capitalize_def camelCase_def snakeCase_def

section \<open>Inbox store: loading the first page\<close>

text \<open>
  C1. A successful load of inbox page 1 replaces the list by the fetched results. With a
  non-empty result the selected user becomes the peer of the first result, whatever was
  selected before; with an empty result the selection stays.
\<close>

theorem fetchInboxList_fulfilled_first_page:
  "inboxList (fetchInboxList_fulfilled state d 1) = results d
   \<and> (results d = [] \<longrightarrow>
        selectedUser (fetchInboxList_fulfilled state d 1) = selectedUser state)
   \<and> (\<forall>first rest. results d = first # rest \<longrightarrow>
        selectedUser (fetchInboxList_fulfilled state d 1)
          = or_else (withUser first) (with_user first))"
  by (simp add: fetchInboxList_fulfilled_def)

theorem fetchInboxList_fulfilled_first_page_witness:
  "results \<lparr>results = [entry 1 ''bob'' 2], numPages = Some 1, num_pages = None\<rparr>
     = [entry 1 ''bob'' 2]
   \<and> selectedUser (inbox_initialState\<lparr>selectedUser := Some ''alice''\<rparr>) = Some ''alice''
   \<and> selectedUser
        (fetchInboxList_fulfilled (inbox_initialState\<lparr>selectedUser := Some ''alice''\<rparr>)
           \<lparr>results = [entry 1 ''bob'' 2], numPages = Some 1, num_pages = None\<rparr> 1)
       = Some ''bob''"
  using fetchInboxList_fulfilled_first_page
          [of "inbox_initialState\<lparr>selectedUser := Some ''alice''\<rparr>"
              "\<lparr>results = [entry 1 ''bob'' 2], numPages = Some 1, num_pages = None\<rparr>"]
  by (simp add: entry_def js_defs)

text \<open>
  With \<open>alice\<close> selected, a first page whose first entry is \<open>bob\<close> changes the selection.
\<close>

theorem fetchInboxList_fulfilled_overrides_selection:
  "selectedUser
     (fetchInboxList_fulfilled (inbox_initialState\<lparr>selectedUser := Some ''alice''\<rparr>)
        \<lparr>results = [entry 1 ''bob'' 2], numPages = Some 1, num_pages = None\<rparr> 1)
   \<noteq> selectedUser (inbox_initialState\<lparr>selectedUser := Some ''alice''\<rparr>)"
  by (simp add: fetchInboxList_fulfilled_def entry_def js_defs)

text \<open>
  C10. A successful load of inbox page 1 with an empty result leaves the selected user
  as it was and replaces the list by the empty list.
\<close>

theorem fetchInboxList_fulfilled_empty_first_page:
  "results d = [] \<Longrightarrow>
   selectedUser (fetchInboxList_fulfilled state d 1) = selectedUser state
   \<and> inboxList (fetchInboxList_fulfilled state d 1) = []"
  by (simp add: fetchInboxList_fulfilled_def)

theorem fetchInboxList_fulfilled_empty_first_page_witness:
  "results \<lparr>results = [], numPages = Some 1, num_pages = None\<rparr> = []
   \<and> selectedUser
        (fetchInboxList_fulfilled
           (inbox_initialState\<lparr>inboxList := [entry 1 ''bob'' 2], selectedUser := Some ''bob''\<rparr>)
           \<lparr>results = [], numPages = Some 1, num_pages = None\<rparr> 1)
       = Some ''bob''
   \<and> inboxList
        (fetchInboxList_fulfilled
           (inbox_initialState\<lparr>inboxList := [entry 1 ''bob'' 2], selectedUser := Some ''bob''\<rparr>)
           \<lparr>results = [], numPages = Some 1, num_pages = None\<rparr> 1)
       = []"
  using fetchInboxList_fulfilled_empty_first_page
          [of "\<lparr>results = [], numPages = Some 1, num_pages = None\<rparr>"
              "inbox_initialState\<lparr>inboxList := [entry 1 ''bob'' 2],
                                  selectedUser := Some ''bob''\<rparr>"]
  by simp

section \<open>User store: the initials of the profile\<close>

text \<open>
  C2. The profile load stores as initials the first character of the username followed
  by the first character of its second space-separated part, or else by its second
  character, or else by nothing, and it changes no letter's case: \<open>a\<close> gives \<open>a\<close>,
  \<open>ada lovelace\<close> gives \<open>al\<close> and \<open>bob\<close> gives \<open>bo\<close>.
\<close>

theorem fetchUserProfile_fulfilled_initials:
  "profileName (currentUser (fetchUserProfile_fulfilled user_initialState None ''a'')) = ''a''
   \<and> profileName (currentUser
        (fetchUserProfile_fulfilled user_initialState None ''ada lovelace'')) = ''al''
   \<and> profileName (currentUser (fetchUserProfile_fulfilled user_initialState None ''bob''))
       = ''bo''"
  by (simp add: fetchUserProfile_fulfilled_def initials_def js_defs)

text \<open>The helper of the inbox rows gives the upper-case pairs on the same names.\<close>

lemma getInitials_samples:
  "getInitials ''a'' = Some ''AA'' \<and> getInitials ''ada lovelace'' = Some ''AL''
   \<and> getInitials ''bob'' = Some ''BO''"
  by (simp add: getInitials_def plus_def char_at_def js_defs char_defs)

text \<open>Reading the second character of a one-character username gives no character.\<close>

lemma initials_single_character: "initials [c] = [c]"
  by (simp add: initials_def js_defs)

section \<open>Sending one message\<close>

text \<open>
  Whatever the outcome of the send, the handler patches the preview of the selected
  user's entry with the text of the draft.
\<close>

lemma handleSendMessage_inbox:
  "trim (currentMessage (messages a)) \<noteq> [] \<Longrightarrow>
   inbox (handleSendMessage outcome a)
     = updateLastMessage (inbox a) (selectedUser (inbox a)) (currentMessage (messages a))"
  by (cases outcome)
     (simp_all add: handleSendMessage_def createMessage_def Let_def
        createMessage_fulfilled_def createMessage_rejected_def)

lemma handleSendMessage_rejected_messages:
  "messages (handleSendMessage (Inl e) a) = messages a"
  by (simp add: handleSendMessage_def createMessage_def Let_def createMessage_rejected_def)

lemma handleSendMessage_fulfilled_messages:
  "trim (currentMessage (messages a)) \<noteq> [] \<Longrightarrow>
   messages (handleSendMessage (Inr m) a)
     = (messages a)\<lparr>messagesList := m # messagesList (messages a), currentMessage := [],
                     isReplying := False\<rparr>"
  by (simp add: handleSendMessage_def createMessage_def Let_def createMessage_fulfilled_def)

text \<open>
  C3. A send of the draft \<open>hello\<close> to the selected user \<open>bob\<close> that fails: the failure is
  reported by one toast, the messages state with the draft is as before, and the preview
  of \<open>bob\<close>'s inbox entry is patched with \<open>hello\<close> all the same.
\<close>

theorem handleSendMessage_failed_send_patches_preview:
  "toasts (handleSendMessage (Inl (Some ''Network Error''))
      (initial_app\<lparr>inbox := inbox_initialState\<lparr>inboxList := [entry 1 ''bob'' 0],
                                               selectedUser := Some ''bob''\<rparr>,
                    messages := messages_initialState\<lparr>isReplying := True,
                                                     currentMessage := ''hello''\<rparr>\<rparr>))
     = [ToastError ''Failed to send message'']
   \<and> messages (handleSendMessage (Inl (Some ''Network Error''))
      (initial_app\<lparr>inbox := inbox_initialState\<lparr>inboxList := [entry 1 ''bob'' 0],
                                               selectedUser := Some ''bob''\<rparr>,
                    messages := messages_initialState\<lparr>isReplying := True,
                                                     currentMessage := ''hello''\<rparr>\<rparr>))
     = messages_initialState\<lparr>isReplying := True, currentMessage := ''hello''\<rparr>
   \<and> inboxList (inbox (handleSendMessage (Inl (Some ''Network Error''))
      (initial_app\<lparr>inbox := inbox_initialState\<lparr>inboxList := [entry 1 ''bob'' 0],
                                               selectedUser := Some ''bob''\<rparr>,
                    messages := messages_initialState\<lparr>isReplying := True,
                                                     currentMessage := ''hello''\<rparr>\<rparr>)))
     = [(entry 1 ''bob'' 0)\<lparr>last_message := Some ''hello''\<rparr>]"
  by (simp add: handleSendMessage_def createMessage_def createMessage_rejected_def
        updateLastMessage_def initial_app_def inbox_initialState_def messages_initialState_def
        entry_def trim_def is_space_def Let_def)

section \<open>Sending a group message\<close>

text \<open>
  Whatever the outcome of the group send, the handler prepends the local message when the
  selected user is among the recipients.
\<close>

lemma handleSubmit_prepends:
  "trim (groupMessage m) \<noteq> [] \<Longrightarrow> selectedUsers m \<noteq> [] \<Longrightarrow>
   list_ex (\<lambda>u. Some (result_username u) = selectedUser (inbox a)) (selectedUsers m) \<Longrightarrow>
   messagesList (messages (snd (handleSubmit outcome (m, a))))
     = \<lparr>msg_id = None, sender = username (currentUser (user a)), senderImg = None,
        sender_img = Some (profileImage (currentUser (user a))), created = ''now'',
        message = groupMessage m\<rparr> # messagesList (messages a)"
  by (cases outcome)
     (simp_all add: handleSubmit_def createGroupMessages_def Let_def addMessageToList_def
        createGroupMessages_fulfilled_def createGroupMessages_rejected_def)

text \<open>
  C4. A group send of \<open>hi all\<close> to \<open>bob\<close>, the selected user, that fails: the failure is
  reported by one toast, and the local message (sender the current user, created \<open>now\<close>,
  the text sent) is prepended to the messages all the same.
\<close>

theorem handleSubmit_failed_send_prepends:
  "toasts (snd (handleSubmit (Inl (Some ''Network Error''))
      (\<lparr>groupMessage = ''hi all'',
        selectedUsers = [\<lparr>result_id = ''bob'', result_username = ''bob''\<rparr>], shown = True\<rparr>,
       initial_app\<lparr>inbox := inbox_initialState\<lparr>selectedUser := Some ''bob''\<rparr>\<rparr>)))
     = [ToastError ''Failed to send messages'']
   \<and> messagesList (messages (snd (handleSubmit (Inl (Some ''Network Error''))
      (\<lparr>groupMessage = ''hi all'',
        selectedUsers = [\<lparr>result_id = ''bob'', result_username = ''bob''\<rparr>], shown = True\<rparr>,
       initial_app\<lparr>inbox := inbox_initialState\<lparr>selectedUser := Some ''bob''\<rparr>\<rparr>))))
     = [\<lparr>msg_id = None, sender = [], senderImg = None, sender_img = Some [],
         created = ''now'', message = ''hi all''\<rparr>]"
  by (simp add: handleSubmit_def createGroupMessages_def createGroupMessages_rejected_def
        addMessageToList_def clearSearchResults_def initial_app_def inbox_initialState_def
        messages_initialState_def user_initialState_def trim_def is_space_def Let_def)

section \<open>Inbox store: merging entries\<close>

lemma inboxList_updateInboxList:
  "inboxList (updateInboxList state b)
     = b @ filter (\<lambda>e. entry_id e \<notin> set (map entry_id b)) (inboxList state)"
  by (simp add: updateInboxList_def Let_def)

lemma updateInboxList_distinct:
  assumes "distinct (map entry_id (inboxList state))" and "distinct (map entry_id b)"
  shows "distinct (map entry_id (inboxList (updateInboxList state b)))"
proof -
  have "distinct (map entry_id
          (filter (\<lambda>e. entry_id e \<notin> set (map entry_id b)) (inboxList state)))"
    using assms(1) by (rule distinct_map_filter)
  moreover have "set (map entry_id b)
      \<inter> set (map entry_id
              (filter (\<lambda>e. entry_id e \<notin> set (map entry_id b)) (inboxList state))) = {}"
    by (auto simp add: image_iff)
  ultimately show ?thesis
    using assms(2) by (simp add: inboxList_updateInboxList del: set_map)
qed

lemma foldl_updateInboxList_distinct:
  "distinct (map entry_id (inboxList state)) \<Longrightarrow>
   \<forall>b \<in> set bs. distinct (map entry_id b) \<Longrightarrow>
   distinct (map entry_id (inboxList (foldl updateInboxList state bs)))"
proof (induction bs arbitrary: state)
  case Nil
  then show ?case by simp
next
  case (Cons b bs)
  from Cons.prems have "distinct (map entry_id (inboxList (updateInboxList state b)))"
    by (simp add: updateInboxList_distinct)
  with Cons.IH [of "updateInboxList state b"] Cons.prems show ?case by simp
qed

lemma foldl_updateInboxList_untouched:
  "inboxList (foldl updateInboxList state bs)
     = inboxList (foldl updateInboxList (state\<lparr>inboxList := []\<rparr>) bs)
       @ filter (\<lambda>e. entry_id e \<notin> set (map entry_id (concat bs))) (inboxList state)"
proof (induction bs rule: rev_induct)
  case Nil
  then show ?case by simp
next
  case (snoc b bs)
  have "filter (\<lambda>e. entry_id e \<notin> set (map entry_id b))
          (filter (\<lambda>e. entry_id e \<notin> set (map entry_id (concat bs))) (inboxList state))
        = filter (\<lambda>e. entry_id e \<notin> set (map entry_id (concat (bs @ [b]))))
            (inboxList state)"
    by (auto intro: filter_cong)
  with snoc.IH show ?case
    by (simp add: inboxList_updateInboxList del: set_map map_append concat_append set_concat)
qed

text \<open>
  C5. For a sequence of merges into an inbox list: when the ids of the starting list are
  pairwise distinct and so are the ids within each merged batch, the ids of the resulting
  list are pairwise distinct. In every case the entries of the last batch come first, in
  the batch's order, before all other entries in the order they had; and the entries of
  the starting list that no batch touched come last, in their order, after a part that
  the batches alone determine.
\<close>

theorem updateInboxList_sequence:
  "(distinct (map entry_id (inboxList state)) \<and> (\<forall>b \<in> set bs. distinct (map entry_id b))
      \<longrightarrow> distinct (map entry_id (inboxList (foldl updateInboxList state bs))))
   \<and> inboxList (foldl updateInboxList state (bs @ [b]))
       = b @ filter (\<lambda>e. entry_id e \<notin> set (map entry_id b))
               (inboxList (foldl updateInboxList state bs))
   \<and> inboxList (foldl updateInboxList state bs)
       = inboxList (foldl updateInboxList (state\<lparr>inboxList := []\<rparr>) bs)
         @ filter (\<lambda>e. entry_id e \<notin> set (map entry_id (concat bs))) (inboxList state)"
proof (intro conjI impI)
  assume "distinct (map entry_id (inboxList state))
          \<and> (\<forall>b \<in> set bs. distinct (map entry_id b))"
  then show "distinct (map entry_id (inboxList (foldl updateInboxList state bs)))"
    by (simp add: foldl_updateInboxList_distinct)
next
  show "inboxList (foldl updateInboxList state (bs @ [b]))
       = b @ filter (\<lambda>e. entry_id e \<notin> set (map entry_id b))
               (inboxList (foldl updateInboxList state bs))"
    by (simp add: inboxList_updateInboxList del: set_map)
next
  show "inboxList (foldl updateInboxList state bs)
       = inboxList (foldl updateInboxList (state\<lparr>inboxList := []\<rparr>) bs)
         @ filter (\<lambda>e. entry_id e \<notin> set (map entry_id (concat bs))) (inboxList state)"
    by (rule foldl_updateInboxList_untouched)
qed

theorem updateInboxList_sequence_witness:
  "distinct (map entry_id [entry 1 ''bob'' 0, entry 2 ''carol'' 0, entry 3 ''dave'' 1])
   \<and> distinct (map entry_id [entry 2 ''carol'' 1])
   \<and> distinct (map entry_id [entry 3 ''dave'' 2, entry 4 ''erin'' 1])
   \<and> inboxList (foldl updateInboxList
        (inbox_initialState
           \<lparr>inboxList := [entry 1 ''bob'' 0, entry 2 ''carol'' 0, entry 3 ''dave'' 1]\<rparr>)
        [[entry 2 ''carol'' 1], [entry 3 ''dave'' 2, entry 4 ''erin'' 1]])
     = [entry 3 ''dave'' 2, entry 4 ''erin'' 1, entry 2 ''carol'' 1, entry 1 ''bob'' 0]
   \<and> distinct (map entry_id (inboxList (foldl updateInboxList
        (inbox_initialState
           \<lparr>inboxList := [entry 1 ''bob'' 0, entry 2 ''carol'' 0, entry 3 ''dave'' 1]\<rparr>)
        [[entry 2 ''carol'' 1], [entry 3 ''dave'' 2, entry 4 ''erin'' 1]])))"
  using updateInboxList_sequence
          [of "inbox_initialState
                 \<lparr>inboxList := [entry 1 ''bob'' 0, entry 2 ''carol'' 0, entry 3 ''dave'' 1]\<rparr>"
              "[[entry 2 ''carol'' 1], [entry 3 ''dave'' 2, entry 4 ''erin'' 1]]" "[]"]
  by (simp add: updateInboxList_def entry_def Let_def)

text \<open>
  A batch that holds the id 1 twice leaves the id 1 twice in the list. And a list that
  holds an id twice keeps it twice under a merge of other ids: such a list arises when
  page 2 is appended and repeats an entry of page 1.
\<close>

theorem updateInboxList_duplicate_batch:
  "\<not> distinct (map entry_id (inboxList (foldl updateInboxList inbox_initialState
        [[entry 1 ''bob'' 0, entry 1 ''bob'' 0]])))
   \<and> \<not> distinct (map entry_id (inboxList (foldl updateInboxList
        (fetchInboxList_fulfilled
           (fetchInboxList_fulfilled inbox_initialState
              \<lparr>results = [entry 1 ''bob'' 0, entry 2 ''carol'' 0], numPages = Some 2,
                 num_pages = None\<rparr> 1)
           \<lparr>results = [entry 2 ''carol'' 0, entry 3 ''dave'' 0], numPages = Some 2,
              num_pages = None\<rparr> 2)
        [[entry 4 ''erin'' 1]])))"
  by (simp add: updateInboxList_def fetchInboxList_fulfilled_def inbox_initialState_def
        entry_def Let_def)

text \<open>The reducer of a fulfilled group send merges in the same way.\<close>

lemma createGroupMessages_fulfilled_merges:
  "fst (createGroupMessages_fulfilled state b) = updateInboxList state b"
  by (simp add: createGroupMessages_fulfilled_def updateInboxList_def Let_def)

section \<open>Key transform: the round trip\<close>

lemma update_fresh:
  "k \<notin> fst ` set acc \<Longrightarrow> AList.update k v acc = acc @ [(k, v)]"
  by (induction acc) auto

lemma foldl_assign_distinct:
  "distinct (map fst (acc @ xs)) \<Longrightarrow> foldl assign acc xs = acc @ xs"
proof (induction xs arbitrary: acc)
  case Nil
  then show ?case by simp
next
  case (Cons x xs)
  from Cons.prems have fresh: "fst x \<notin> fst ` set acc" by auto
  have step: "assign acc x = acc @ [x]"
    unfolding assign_def using update_fresh [OF fresh, of "snd x"] by simp
  from Cons.prems have "distinct (map fst ((acc @ [x]) @ xs))" by simp
  from Cons.IH [OF this] step show ?case by simp
qed

text \<open>
  For any two key functions: when the second undoes the first on every key of a value,
  modifying the keys with the first and then with the second gives the value back.
\<close>

lemma modifyObjectKeys_roundtrip:
  "well_formed x \<Longrightarrow> \<forall>k \<in> set (keys_of x). g (f k) = k \<Longrightarrow>
   modifyObjectKeys (modifyObjectKeys x f) g = x"
proof (induction x)
  case (JArr xs)
  have "map (\<lambda>v. modifyObjectKeys (modifyObjectKeys v f) g) xs = xs"
  proof (rule map_idI)
    fix v assume v: "v \<in> set xs"
    with JArr.prems have "well_formed v" "\<forall>k \<in> set (keys_of v). g (f k) = k"
      by (auto simp: list_all_iff)
    with JArr.IH [OF v] show "modifyObjectKeys (modifyObjectKeys v f) g = v" by simp
  qed
  then show ?case by (simp add: comp_def)
next
  case (JObj es)
  let ?inner = "map (\<lambda>e. (f (fst e), modifyObjectKeys (snd e) f)) es"
  from JObj.prems have dist: "distinct (map fst es)" by simp
  from JObj.prems have fixed: "\<forall>e \<in> set es. g (f (fst e)) = fst e" by auto
  have "inj_on f (fst ` set es)"
  proof (rule inj_onI)
    fix a b assume "a \<in> fst ` set es" "b \<in> fst ` set es" "f a = f b"
    with fixed have "g (f a) = a" "g (f b) = b" by auto
    with \<open>f a = f b\<close> show "a = b" by metis
  qed
  then have "inj_on f (set (map fst es))" by simp
  with dist have "distinct (map f (map fst es))" by (subst distinct_map) blast
  then have "distinct (map fst ([] @ ?inner))" by (simp add: comp_def)
  from foldl_assign_distinct [OF this] have first: "foldl assign [] ?inner = ?inner" by simp
  have second: "map (\<lambda>e. (g (fst e), modifyObjectKeys (snd e) g)) ?inner = es"
  proof -
    have "map (\<lambda>e. (g (f (fst e)), modifyObjectKeys (modifyObjectKeys (snd e) f) g)) es = es"
    proof (rule map_idI)
      fix e assume e: "e \<in> set es"
      have mem: "snd e \<in> Basic_BNFs.snds e" by (cases e) simp
      from e JObj.prems
      have "well_formed (snd e)" "\<forall>k \<in> set (keys_of (snd e)). g (f k) = k"
        by (auto simp: list_all_iff)
      with JObj.IH [OF e mem] have "modifyObjectKeys (modifyObjectKeys (snd e) f) g = snd e"
        by simp
      with fixed e show "(g (f (fst e)), modifyObjectKeys (modifyObjectKeys (snd e) f) g) = e"
        by (cases e) auto
    qed
    then show ?thesis by (simp add: comp_def)
  qed
  from dist have "distinct (map fst ([] @ es))" by simp
  from foldl_assign_distinct [OF this] have "foldl assign [] es = es" by simp
  with first second show ?case by simp
qed simp_all

text \<open>
  C6. For every value whose objects have pairwise distinct keys and all of whose keys are
  left as they are by the snake-case conversion followed by the camel-case conversion,
  the inner-casing transform followed by the outer-casing transform gives the value back:
  every key and every value that is not an object or array is as before.
\<close>

theorem camelCaseObject_snakeCaseObject_fixed_keys:
  "well_formed x \<Longrightarrow> \<forall>k \<in> set (keys_of x). camelCase (snakeCase k) = k \<Longrightarrow>
   camelCaseObject (snakeCaseObject x) = x"
  unfolding camelCaseObject_def snakeCaseObject_def
  by (rule modifyObjectKeys_roundtrip)

theorem camelCaseObject_snakeCaseObject_fixed_keys_witness:
  "well_formed
     (JObj [(''results'', JArr [JObj [(''id'', JNum 1), (''withUser'', JStr ''bob''),
                                       (''unreadCount'', JNum 2)]]),
            (''numPages'', JNum 1)])
   \<and> list_all (\<lambda>k. camelCase (snakeCase k) = k)
        (keys_of
           (JObj [(''results'', JArr [JObj [(''id'', JNum 1), (''withUser'', JStr ''bob''),
                                             (''unreadCount'', JNum 2)]]),
                  (''numPages'', JNum 1)]))
   \<and> camelCaseObject (snakeCaseObject
        (JObj [(''results'', JArr [JObj [(''id'', JNum 1), (''withUser'', JStr ''bob''),
                                          (''unreadCount'', JNum 2)]]),
               (''numPages'', JNum 1)]))
      = JObj [(''results'', JArr [JObj [(''id'', JNum 1), (''withUser'', JStr ''bob''),
                                         (''unreadCount'', JNum 2)]]),
              (''numPages'', JNum 1)]"
  using camelCaseObject_snakeCaseObject_fixed_keys
          [of "JObj [(''results'', JArr [JObj [(''id'', JNum 1), (''withUser'', JStr ''bob''),
                                                (''unreadCount'', JNum 2)]]),
                     (''numPages'', JNum 1)]"]
  by (simp add: case_defs char_defs)

text \<open>
  The key \<open>with_user\<close> comes back as \<open>withUser\<close>, and the wire's own spelling of a key
  collides with the client's.
\<close>

theorem camelCaseObject_snakeCaseObject_with_user:
  "camelCaseObject (snakeCaseObject (JObj [(''with_user'', JStr ''bob'')]))
     = JObj [(''withUser'', JStr ''bob'')]
   \<and> camelCaseObject (snakeCaseObject (JObj [(''with_user'', JStr ''bob'')]))
     \<noteq> JObj [(''with_user'', JStr ''bob'')]"
  by (simp add: camelCaseObject_def snakeCaseObject_def assign_def case_defs char_defs)

lemma camelCaseObject_snakeCaseObject_collision:
  "camelCaseObject (snakeCaseObject (JObj [(''withUser'', JStr ''bob''), (''with_user'', JNum 2)]))
     = JObj [(''withUser'', JNum 2)]"
  by (simp add: camelCaseObject_def snakeCaseObject_def assign_def case_defs char_defs)

section \<open>API gateway: failures\<close>

lemma processAndThrowError_structured:
  "response e = Some r \<Longrightarrow> js_truthy (data r) \<Longrightarrow> typeof_object (data r) \<Longrightarrow>
   processAndThrowError e p = Processed e (p (data r))"
  by (simp add: processAndThrowError_def)

lemma processAndThrowError_other:
  "(\<forall>r. response e = Some r \<longrightarrow> \<not> (js_truthy (data r) \<and> typeof_object (data r))) \<Longrightarrow>
   processAndThrowError e p = Original e"
  by (auto simp add: processAndThrowError_def split: option.splits)

text \<open>
  The six operations of the messenger API hand a failure to \<open>processAndThrowError\<close> with
  the outer-casing transform.
\<close>

lemma messenger_services_failure:
  "createMessageService lms (\<lambda>req. Inl e) payload
     = Inl (processAndThrowError e camelCaseObject)
   \<and> createGroupMessagesService lms (\<lambda>req. Inl e) payload
     = Inl (processAndThrowError e camelCaseObject)
   \<and> updateUnreadCountService lms (\<lambda>req. Inl e) inboxId
     = Inl (processAndThrowError e camelCaseObject)
   \<and> fetchInboxListService lms (\<lambda>req. Inl e) page search
     = Inl (processAndThrowError e camelCaseObject)
   \<and> fetchSelectedInboxMessagesService lms (\<lambda>req. Inl e) page peer
     = Inl (processAndThrowError e camelCaseObject)
   \<and> fetchUsersService lms (\<lambda>req. Inl e) query
     = Inl (processAndThrowError e camelCaseObject)"
  by (simp add: createMessageService_def createGroupMessagesService_def
        updateUnreadCountService_def fetchInboxListService_def
        fetchSelectedInboxMessagesService_def fetchUsersService_def Let_def)

lemma getAccountService_failure:
  "getAccountService lms (\<lambda>req. Inl e) u = Inl (Original e)"
  by (simp add: getAccountService_def)

text \<open>
  C7. A failure whose response body is the object \<open>{error_code: "no_such_user"}\<close>: the
  account operation raises the original error, without \<open>processedData\<close>, where the user
  search raises the error with \<open>processedData\<close>, the body in outer casing.
\<close>

theorem getAccountService_structured_failure:
  "getAccountService ''https://lms''
     (\<lambda>req. Inl \<lparr>err_message = ''Request failed with status code 404'',
                  response = Some \<lparr>data = JObj [(''error_code'', JStr ''no_such_user'')]\<rparr>\<rparr>)
     ''bob''
   = Inl (Original \<lparr>err_message = ''Request failed with status code 404'',
                  response = Some \<lparr>data = JObj [(''error_code'', JStr ''no_such_user'')]\<rparr>\<rparr>)
   \<and> fetchUsersService ''https://lms''
     (\<lambda>req. Inl \<lparr>err_message = ''Request failed with status code 404'',
                  response = Some \<lparr>data = JObj [(''error_code'', JStr ''no_such_user'')]\<rparr>\<rparr>)
     ''bob''
   = Inl (Processed \<lparr>err_message = ''Request failed with status code 404'',
                  response = Some \<lparr>data = JObj [(''error_code'', JStr ''no_such_user'')]\<rparr>\<rparr>
            (JObj [(''errorCode'', JStr ''no_such_user'')]))"
  by (simp add: getAccountService_def fetchUsersService_def processAndThrowError_def
        js_truthy_def typeof_object_def camelCaseObject_def assign_def case_defs char_defs)

section \<open>Inbox search: the debounce\<close>

text \<open>
  C8. The search query is set to a non-empty text (other than the one it had) and
  cleared before 500 milliseconds have passed: exactly one inbox fetch is issued, that of
  page 1 with the empty query, at the clearing; the timer is pending until then and
  cancelled by it, so that no later time issues a fetch.
\<close>

theorem search_cleared_within_debounce:
  assumes "q \<noteq> []" and "searchQuery (inbox (store c)) \<noteq> q" and "d < 500"
  shows "calls (store (elapse d' (handleClearSearch (elapse d (handleSearchChange q c)))))
           = calls (store c) @ [FetchInboxList 1 []]
         \<and> calls (store (elapse d (handleSearchChange q c))) = calls (store c)
         \<and> delayDebounceFetch (elapse d (handleSearchChange q c)) = Some (500 - d, q)
         \<and> delayDebounceFetch (handleClearSearch (elapse d (handleSearchChange q c))) = None"
  using assms
  by (simp add: handleClearSearch_def handleSearchChange_def elapse_def rerender_def
        searchEffect_def searchCleanup_def paginationEffect_def setSearchQuery_def
        fetchInboxList_start_def fetchInboxList_pending_def Let_def)

theorem search_cleared_within_debounce_witness:
  "''bo'' \<noteq> []
   \<and> searchQuery (inbox (store \<lparr>store = initial_app, delayDebounceFetch = None\<rparr>)) \<noteq> ''bo''
   \<and> (499::nat) < 500
   \<and> calls (store (elapse 1000 (handleClearSearch (elapse 499
        (handleSearchChange ''bo'' \<lparr>store = initial_app, delayDebounceFetch = None\<rparr>)))))
      = [FetchInboxList 1 []]"
  using search_cleared_within_debounce
          [of "''bo''" "\<lparr>store = initial_app, delayDebounceFetch = None\<rparr>" 499 1000]
  by (simp add: initial_app_def inbox_initialState_def)

text \<open>Left alone for 500 milliseconds, the timer issues the fetch of the query.\<close>

lemma debounce_fires:
  "calls (store (elapse 500
      (handleSearchChange ''bo'' \<lparr>store = initial_app, delayDebounceFetch = None\<rparr>)))
     = [FetchInboxList 1 ''bo'']"
  by (simp add: handleSearchChange_def elapse_def rerender_def searchEffect_def
        searchCleanup_def paginationEffect_def setSearchQuery_def resetPageNumber_def
        fetchInboxList_start_def fetchInboxList_pending_def Let_def initial_app_def
        inbox_initialState_def)

section \<open>User search: the empty query\<close>

text \<open>
  C9. The search handler of the compose dialog does nothing on an empty query: no call
  is issued and the store is unchanged. On a non-empty query it runs the thunk. The thunk
  itself issues the user search call for every query.
\<close>

theorem handleSearch_guard:
  "handleSearch outcome [] a = a
   \<and> (query \<noteq> [] \<longrightarrow> handleSearch outcome query a = searchUsers outcome query a)
   \<and> calls (searchUsers outcome query a) = calls a @ [FetchUsers query]"
  by (cases outcome)
     (simp_all add: handleSearch_def searchUsers_def Let_def searchUsers_rejected_def)

theorem handleSearch_guard_witness:
  "''bo'' \<noteq> []
   \<and> handleSearch (Inr [\<lparr>found_username = ''bob''\<rparr>]) [] initial_app = initial_app
   \<and> calls (handleSearch (Inr [\<lparr>found_username = ''bob''\<rparr>]) ''bo'' initial_app)
       = [FetchUsers ''bo'']"
  using handleSearch_guard [of "Inr [\<lparr>found_username = ''bob''\<rparr>]" initial_app "''bo''"]
  by (simp add: initial_app_def)

text \<open>
  The thunk run with the empty query issues the call and replaces the search results.
\<close>

theorem searchUsers_empty_query_calls:
  "calls (searchUsers (Inr [\<lparr>found_username = ''bob''\<rparr>]) [] initial_app) = [FetchUsers []]
   \<and> searchResults (user (searchUsers (Inr [\<lparr>found_username = ''bob''\<rparr>]) [] initial_app))
       \<noteq> searchResults (user initial_app)"
  by (simp add: searchUsers_def searchUsers_pending_def searchUsers_fulfilled_def
        initial_app_def user_initialState_def Let_def)

end
